theory Spec2Isabelle
  imports Main
begin

section \<open>The screen of app/index.tsx: data\<close>

text \<open>
  The component \<open>HomeScreen\<close> holds four pieces of React state and two asynchronous
  handlers. Everything the handlers do beyond updating that state is a call of an
  external collaborator (expo-asset, expo-file-system, expo-intent-launcher, the alert
  dialog, the console). The collaborators are parameters of the model (\<open>env\<close>), and
  every call is recorded, in program order, in a log of events.
\<close>

text \<open>The object returned by \<open>Asset.fromModule\<close>: the fields the handler reads.\<close>

record Asset =
  uri :: string
  localUri :: "string option"
  name :: string
  type :: string
  hash :: string

text \<open>
  A \<open>FileSystem.File\<close>: the fields the handler reads. \<open>contentUri\<close> is read through
  a cast to \<open>any\<close>, so it may be missing (\<open>None\<close>).
\<close>

record File =
  uri :: string
  name :: string
  size_bytes :: nat
  type :: string
  exists :: bool
  contentUri :: "string option"

text \<open>
  A thrown value. The \<open>catch\<close> clauses take it as \<open>any\<close>, so it is one of:
  \<^item> \<open>Error m ps\<close>, an object with the message \<open>m\<close> and the string-valued enumerable
    own properties \<open>ps\<close>; \<open>new Error(m)\<close> sets no property but the message;
  \<^item> \<open>Cyclic m\<close>, an object with the message \<open>m\<close> that \<open>JSON.stringify\<close> cannot dump
    (its properties lead back to itself);
  \<^item> \<open>Nullish\<close>, the value \<open>null\<close> or \<open>undefined\<close>, which has no property to read.
\<close>

datatype js_error =
    Error (message: string) (props: "(string \<times> string) list")
  | Cyclic (message: string)
  | Nullish

text \<open>The second argument of \<open>IntentLauncher.startActivityAsync\<close>.\<close>

record intent_params =
  data :: string
  flags :: int
  type :: string

text \<open>The four \<open>useState\<close> slots of lines 8 to 11.\<close>

record state =
  fileObject :: "File option"
  fileInfo :: string
  errorText :: string
  isLoading :: bool

text \<open>An argument of \<open>console.log\<close> or \<open>console.error\<close>.\<close>

datatype js_value =
    Str string
  | OptStr "string option"
  | AssetObj Asset
  | FileObj File
  | ErrObj js_error

text \<open>Every call that leaves the handler, state setters included.\<close>

datatype event =
    SetErrorText string
  | SetFileInfo string
  | SetFileObject "File option"
  | SetIsLoading bool
  | ConsoleLog "js_value list"
  | ConsoleError "js_value list"
  | AlertAlert string string
  | AssetFromModule
  | DownloadAsync Asset
  | FileNew string
  | StartActivityAsync string intent_params

text \<open>
  The collaborators. A call that can throw or reject returns a sum, \<open>Inl\<close> the thrown
  value. \<open>downloadAsync\<close> returns the asset as it is after the download (its
  \<open>localUri\<close> filled in). \<open>JSON_stringify e\<close> is the text \<open>JSON.stringify(e, null, 2)\<close>
  returns for a value it can dump.
\<close>

record env =
  Platform_OS :: string
  Asset_fromModule :: "js_error + Asset"
  downloadAsync :: "Asset \<Rightarrow> js_error + Asset"
  File_new :: "string \<Rightarrow> js_error + File"
  startActivityAsync :: "string \<Rightarrow> intent_params \<Rightarrow> js_error + unit"
  JSON_stringify :: "js_error \<Rightarrow> string"

text \<open>The state of the component together with the log of calls made so far.\<close>

type_synonym ctx = "state \<times> event list"

text \<open>How the promise returned by an \<open>async\<close> handler settles.\<close>

datatype settled = Fulfilled | Rejected js_error

section \<open>Strings\<close>

definition nl :: string where
  "nl = [CHR 0x0A]"

text \<open>The pictographs of the log lines, as their UTF-8 bytes.\<close>

definition emoji_folder :: string where
  "emoji_folder = [CHR 0xF0, CHR 0x9F, CHR 0x93, CHR 0x82]"

definition emoji_check :: string where
  "emoji_check = [CHR 0xE2, CHR 0x9C, CHR 0x85]"

definition emoji_page :: string where
  "emoji_page = [CHR 0xF0, CHR 0x9F, CHR 0x93, CHR 0x84]"

definition emoji_glass :: string where
  "emoji_glass = [CHR 0xF0, CHR 0x9F, CHR 0x94, CHR 0x8D]"

definition emoji_cross :: string where
  "emoji_cross = [CHR 0xE2, CHR 0x9D, CHR 0x8C]"

definition emoji_rocket :: string where
  "emoji_rocket = [CHR 0xF0, CHR 0x9F, CHR 0x9A, CHR 0x80]"

text \<open>A number inside a template literal: its decimal digits.\<close>

fun show_nat :: "nat \<Rightarrow> string" where
  "show_nat n =
     (if n < 10 then [''0123456789'' ! n]
      else show_nat (n div 10) @ [''0123456789'' ! (n mod 10)])"

declare show_nat.simps [simp del]

text \<open>JavaScript truthiness of a string that may be missing: \<open>null\<close>, \<open>undefined\<close> and
  the empty string are falsy.\<close>

definition truthy :: "string option \<Rightarrow> bool" where
  "truthy v = (case v of None \<Rightarrow> False | Some t \<Rightarrow> t \<noteq> [])"

text \<open>The string a truthy value holds (a falsy one holds no character).\<close>

definition string_of :: "string option \<Rightarrow> string" where
  "string_of v = (case v of None \<Rightarrow> [] | Some t \<Rightarrow> t)"

section \<open>Calls with an effect\<close>

definition emit :: "event \<Rightarrow> ctx \<Rightarrow> ctx" where
  "emit e c = (fst c, snd c @ [e])"

definition setErrorText :: "string \<Rightarrow> ctx \<Rightarrow> ctx" where
  "setErrorText v c = ((fst c)\<lparr>errorText := v\<rparr>, snd c @ [SetErrorText v])"

definition setFileInfo :: "string \<Rightarrow> ctx \<Rightarrow> ctx" where
  "setFileInfo v c = ((fst c)\<lparr>fileInfo := v\<rparr>, snd c @ [SetFileInfo v])"

definition setFileObject :: "File option \<Rightarrow> ctx \<Rightarrow> ctx" where
  "setFileObject v c = ((fst c)\<lparr>fileObject := v\<rparr>, snd c @ [SetFileObject v])"

definition setIsLoading :: "bool \<Rightarrow> ctx \<Rightarrow> ctx" where
  "setIsLoading v c = ((fst c)\<lparr>isLoading := v\<rparr>, snd c @ [SetIsLoading v])"

definition console_log :: "js_value list \<Rightarrow> ctx \<Rightarrow> ctx" where
  "console_log args c = emit (ConsoleLog args) c"

definition console_error :: "js_value list \<Rightarrow> ctx \<Rightarrow> ctx" where
  "console_error args c = emit (ConsoleError args) c"

definition Alert_alert :: "string \<Rightarrow> string \<Rightarrow> ctx \<Rightarrow> ctx" where
  "Alert_alert title msg c = emit (AlertAlert title msg) c"

section \<open>Operation 1: loadFileFromAsset (lines 13 to 66)\<close>

text \<open>Line 36: \<open>asset.localUri || asset.uri\<close>.\<close>

definition fileUri_of :: "Asset \<Rightarrow> string" where
  "fileUri_of asset =
     (if truthy (localUri asset) then string_of (localUri asset) else Asset.uri asset)"

text \<open>
  The two \<open>TypeError\<close>s of the language that a \<open>catch\<close> block can raise. The wording of
  their messages is the engine's.
\<close>

definition TypeError_nullish :: js_error where
  "TypeError_nullish = Error ''Cannot read property message of null'' []"

definition TypeError_cyclic :: js_error where
  "TypeError_cyclic = Error ''Converting circular structure to JSON'' []"

text \<open>\<open>error.message\<close>: reading a property of \<open>null\<close> or \<open>undefined\<close> throws.\<close>

definition read_message :: "js_error \<Rightarrow> js_error + string" where
  "read_message error =
     (case error of
        Error m ps \<Rightarrow> Inr m
      | Cyclic m \<Rightarrow> Inr m
      | Nullish \<Rightarrow> Inl TypeError_nullish)"

text \<open>\<open>JSON.stringify(error, null, 2)\<close>: a cyclic value throws.\<close>

definition stringify :: "env \<Rightarrow> js_error \<Rightarrow> js_error + string" where
  "stringify env error =
     (case error of
        Error m ps \<Rightarrow> Inr (JSON_stringify env error)
      | Cyclic m \<Rightarrow> Inl TypeError_cyclic
      | Nullish \<Rightarrow> Inr (JSON_stringify env error))"

text \<open>
  The \<open>catch\<close> block, lines 59 to 62. The template literal of line 61 reads
  \<open>error.message\<close>, then calls \<open>JSON.stringify\<close>; when either throws, the block is left
  with that \<open>TypeError\<close> before \<open>setErrorText\<close> is called.
\<close>

definition load_catch :: "env \<Rightarrow> js_error \<Rightarrow> ctx \<Rightarrow> (js_error + unit) \<times> ctx" where
  "load_catch env error c =
     (let c = console_error [Str (emoji_cross @ '' Error loading file:''), ErrObj error] c
      in case read_message error of
           Inl t \<Rightarrow> (Inl t, c)
         | Inr m \<Rightarrow>
             (case stringify env error of
                Inl t \<Rightarrow> (Inl t, c)
              | Inr d \<Rightarrow>
                  (let c = setErrorText (''Error: '' @ m @ nl @ nl @ d) c;
                       c = Alert_alert ''Error'' (''Failed to load file: '' @ m) c
                   in (Inr (), c))))"

text \<open>The \<open>finally\<close> block, line 64.\<close>

definition load_finally :: "ctx \<Rightarrow> ctx" where
  "load_finally c = setIsLoading False c"

text \<open>
  The \<open>try\<close> block up to its only \<open>await\<close> (lines 19 to 25): either
  \<open>Asset.fromModule\<close> throws, or \<open>downloadAsync\<close> has been called on the asset and the
  handler is suspended.
\<close>

definition load_try_begin :: "env \<Rightarrow> ctx \<Rightarrow> (js_error + Asset) \<times> ctx" where
  "load_try_begin env c =
     (let c = setIsLoading True c;
          c = console_log [Str (emoji_folder @ '' Loading PDF from assets...'')] c;
          c = emit AssetFromModule c
      in case Asset_fromModule env of
           Inl error \<Rightarrow> (Inl error, c)
         | Inr asset \<Rightarrow> (Inr asset, emit (DownloadAsync asset) c))"

text \<open>
  The \<open>try\<close> block after the \<open>await\<close> (lines 25 to 57), given how the download
  settled.
\<close>

definition load_try_rest :: "env \<Rightarrow> js_error + Asset \<Rightarrow> ctx \<Rightarrow> (js_error + unit) \<times> ctx" where
  "load_try_rest env awaited c =
     (case awaited of
        Inl error \<Rightarrow> (Inl error, c)
      | Inr asset \<Rightarrow>
          (let c = console_log [Str (emoji_check @ '' Asset downloaded:''), AssetObj asset] c;
               fileUri = fileUri_of asset
           in if fileUri = [] then (Inl (Error ''No valid URI from asset'' []), c)
              else
                (let c = emit (FileNew fileUri) c
                 in case File_new env fileUri of
                      Inl error \<Rightarrow> (Inl error, c)
                    | Inr file \<Rightarrow>
                        (let c = console_log [Str (emoji_page @ '' File info:''), FileObj file] c
                         in if \<not> exists file then (Inl (Error ''File does not exist'' []), c)
                            else
                              (let c = console_log
                                         [Str (emoji_glass @ '' Checking for contentUri...''),
                                          OptStr (contentUri file)] c;
                                   c = setFileObject (Some file) c;
                                   c = Alert_alert ''File Loaded''
                                         (''File object created from asset'' @ nl
                                          @ ''Name: '' @ File.name file @ nl
                                          @ ''Size: '' @ show_nat (size_bytes file) @ '' bytes'' @ nl
                                          @ ''Type: '' @ File.type file) c
                               in (Inr (), c))))))"

text \<open>
  Leaving the \<open>try\<close> block: \<open>catch\<close> if it threw, then \<open>finally\<close>. What the \<open>catch\<close>
  block itself throws is caught by nothing: \<open>finally\<close> runs and the promise rejects.
\<close>

definition load_settle :: "env \<Rightarrow> (js_error + unit) \<times> ctx \<Rightarrow> settled \<times> ctx" where
  "load_settle env r =
     (case fst r of
        Inl error \<Rightarrow>
          (case load_catch env error (snd r) of
             (Inl t, c) \<Rightarrow> (Rejected t, load_finally c)
           | (Inr u, c) \<Rightarrow> (Fulfilled, load_finally c))
      | Inr u \<Rightarrow> (Fulfilled, load_finally (snd r)))"

text \<open>Where the handler stands when it first yields to the event loop.\<close>

datatype load_point =
    Suspended Asset ctx
  | Settled "settled \<times> ctx"

text \<open>
  The synchronous prefix of the handler: lines 14 to 16, then the \<open>try\<close> block up to
  the \<open>await\<close>.
\<close>

definition loadFileFromAsset_begin :: "env \<Rightarrow> state \<Rightarrow> load_point" where
  "loadFileFromAsset_begin env s =
     (let c = (s, []);
          c = setErrorText [] c;
          c = setFileInfo [] c;
          c = setFileObject None c
      in case load_try_begin env c of
           (Inl error, c) \<Rightarrow> Settled (load_settle env (Inl error, c))
         | (Inr asset, c) \<Rightarrow> Suspended asset c)"

text \<open>The continuation run when the download settles.\<close>

definition loadFileFromAsset_resume :: "env \<Rightarrow> Asset \<Rightarrow> ctx \<Rightarrow> settled \<times> ctx" where
  "loadFileFromAsset_resume env asset c =
     load_settle env (load_try_rest env (downloadAsync env asset) c)"

text \<open>The handler from the press of the button to the settling of its promise.\<close>

definition loadFileFromAsset :: "env \<Rightarrow> state \<Rightarrow> settled \<times> ctx" where
  "loadFileFromAsset env s =
     (case loadFileFromAsset_begin env s of
        Settled r \<Rightarrow> r
      | Suspended asset c \<Rightarrow> loadFileFromAsset_resume env asset c)"

section \<open>Operation 2: openFileWithIntent (lines 68 to 114)\<close>

text \<open>The text of line 87.\<close>

definition contentUri_missing :: string where
  "contentUri_missing =
     ''contentUri is missing from the File object. This is the bug we are testing!''"

text \<open>The \<open>try\<close> block, lines 81 to 106. The \<open>return\<close> of line 94 leaves it normally.\<close>

definition open_try :: "env \<Rightarrow> File \<Rightarrow> ctx \<Rightarrow> (js_error + unit) \<times> ctx" where
  "open_try env fileWithUri c =
     (let c = setErrorText [] c;
          c = console_log [Str (emoji_rocket @ '' Attempting to open file with IntentLauncher...'')] c
      in if \<not> truthy (contentUri fileWithUri) then
           (let error = contentUri_missing;
                c = setErrorText error c;
                c = Alert_alert ''ContentURI Missing'' error c;
                c = console_error [Str emoji_cross, Str error] c
            in (Inr (), c))
         else
           (let c = console_log [Str (emoji_page @ '' Using contentUri:''),
                                 OptStr (contentUri fileWithUri)] c;
                params = \<lparr>data = string_of (contentUri fileWithUri), flags = 1,
                          type = ''application/pdf''\<rparr>;
                c = emit (StartActivityAsync ''android.intent.action.VIEW'' params) c
            in case startActivityAsync env ''android.intent.action.VIEW'' params of
                 Inl error \<Rightarrow> (Inl error, c)
               | Inr u \<Rightarrow>
                   (let c = console_log
                              [Str (emoji_check @ '' File opened successfully with IntentLauncher'')] c;
                        c = Alert_alert ''Success'' ''PDF opened with IntentLauncher'' c
                    in (Inr (), c))))"

text \<open>
  The \<open>catch\<close> block, lines 108 to 113. Line 109 builds \<open>errorMsg\<close> first: when
  \<open>error.message\<close> or \<open>JSON.stringify\<close> throws, the block is left with that
  \<open>TypeError\<close> before anything is logged or shown.
\<close>

definition open_catch :: "env \<Rightarrow> js_error \<Rightarrow> ctx \<Rightarrow> (js_error + unit) \<times> ctx" where
  "open_catch env error c =
     (case read_message error of
        Inl t \<Rightarrow> (Inl t, c)
      | Inr m \<Rightarrow>
          (case stringify env error of
             Inl t \<Rightarrow> (Inl t, c)
           | Inr d \<Rightarrow>
               (let errorMsg = ''Error opening file: '' @ m @ nl @ nl @ d;
                    c = console_error [Str (emoji_cross @ '' Error opening file:''), ErrObj error] c;
                    c = setErrorText errorMsg c;
                    c = Alert_alert ''Error'' (''Failed to open PDF: '' @ m) c
                in (Inr (), c))))"

text \<open>
  The handler. What its \<open>catch\<close> block throws is caught by nothing, and the promise
  rejects.
\<close>

definition openFileWithIntent :: "env \<Rightarrow> state \<Rightarrow> settled \<times> ctx" where
  "openFileWithIntent env s =
     (let c = (s, [])
      in case fileObject s of
           None \<Rightarrow> (Fulfilled, Alert_alert ''No File'' ''Please load the file first'' c)
         | Some fileWithUri \<Rightarrow>
             if Platform_OS env \<noteq> ''android'' then
               (let c = setErrorText ''IntentLauncher is only available on Android'' c;
                    c = Alert_alert ''Android Only'' ''IntentLauncher is only available on Android'' c
                in (Fulfilled, c))
             else
               (case open_try env fileWithUri c of
                  (Inl error, c) \<Rightarrow>
                    (case open_catch env error c of
                       (Inl t, c) \<Rightarrow> (Rejected t, c)
                     | (Inr u, c) \<Rightarrow> (Fulfilled, c))
                | (Inr u, c) \<Rightarrow> (Fulfilled, c)))"

section \<open>The two buttons (lines 126 to 144)\<close>

text \<open>The \<open>disabled\<close> attributes of the load button and of the open button.\<close>

definition load_disabled :: "state \<Rightarrow> bool" where
  "load_disabled s = isLoading s"

definition open_disabled :: "state \<Rightarrow> bool" where
  "open_disabled s = (fileObject s = None)"

section \<open>Reading a run\<close>

text \<open>The state after a run and the log of the run.\<close>

definition state_after :: "settled \<times> ctx \<Rightarrow> state" where
  "state_after r = fst (snd r)"

definition log_of :: "settled \<times> ctx \<Rightarrow> event list" where
  "log_of r = snd (snd r)"

text \<open>The calls of \<open>IntentLauncher.startActivityAsync\<close> in a log, with their arguments.\<close>

fun intent_call :: "event \<Rightarrow> (string \<times> intent_params) list" where
  "intent_call (StartActivityAsync a p) = [(a, p)]"
| "intent_call _ = []"

definition intent_calls :: "event list \<Rightarrow> (string \<times> intent_params) list" where
  "intent_calls tr = concat (map intent_call tr)"

text \<open>The URIs given to \<open>new FileSystem.File\<close> in a log.\<close>

fun file_new :: "event \<Rightarrow> string list" where
  "file_new (FileNew u) = [u]"
| "file_new _ = []"

definition file_news :: "event list \<Rightarrow> string list" where
  "file_news tr = concat (map file_new tr)"

text \<open>The handles written into the \<open>fileObject\<close> slot in a log.\<close>

fun handle_write :: "event \<Rightarrow> File list" where
  "handle_write (SetFileObject (Some f)) = [f]"
| "handle_write _ = []"

definition handle_writes :: "event list \<Rightarrow> File list" where
  "handle_writes tr = concat (map handle_write tr)"

text \<open>The calls in a log of a setter other than \<open>setErrorText\<close>.\<close>

fun other_write :: "event \<Rightarrow> event list" where
  "other_write (SetFileInfo v) = [SetFileInfo v]"
| "other_write (SetFileObject v) = [SetFileObject v]"
| "other_write (SetIsLoading v) = [SetIsLoading v]"
| "other_write _ = []"

definition other_writes :: "event list \<Rightarrow> event list" where
  "other_writes tr = concat (map other_write tr)"

text \<open>
  The values caught in a log: both \<open>catch\<close> blocks, and nothing else, call
  \<open>console.error\<close> with a label and the caught value.
\<close>

fun catch_entry :: "event \<Rightarrow> js_error list" where
  "catch_entry (ConsoleError [Str l, ErrObj e]) = [e]"
| "catch_entry _ = []"

definition catch_entries :: "event list \<Rightarrow> js_error list" where
  "catch_entries tr = concat (map catch_entry tr)"

text \<open>A thrown value whose message can be read and that \<open>JSON.stringify\<close> can dump.\<close>

definition showable :: "js_error \<Rightarrow> bool" where
  "showable e = (case e of Error m ps \<Rightarrow> True | Cyclic m \<Rightarrow> False | Nullish \<Rightarrow> False)"

text \<open>
  What a run shows of a caught value \<open>e\<close>: the promise is fulfilled, \<open>e\<close> is the one
  value caught, the error text is the prefix, the message and the JSON dump of \<open>e\<close>, and
  an alert carries the message.
\<close>

definition load_failure_shown :: "env \<Rightarrow> js_error \<Rightarrow> settled \<times> ctx \<Rightarrow> bool" where
  "load_failure_shown env e r =
     (fst r = Fulfilled
      \<and> catch_entries (log_of r) = [e]
      \<and> errorText (state_after r) = ''Error: '' @ message e @ nl @ nl @ JSON_stringify env e
      \<and> AlertAlert ''Error'' (''Failed to load file: '' @ message e) \<in> set (log_of r))"

definition open_failure_shown :: "env \<Rightarrow> js_error \<Rightarrow> settled \<times> ctx \<Rightarrow> bool" where
  "open_failure_shown env e r =
     (fst r = Fulfilled
      \<and> catch_entries (log_of r) = [e]
      \<and> errorText (state_after r) =
            ''Error opening file: '' @ message e @ nl @ nl @ JSON_stringify env e
      \<and> AlertAlert ''Error'' (''Failed to open PDF: '' @ message e) \<in> set (log_of r))"

text \<open>The context of a handler at the point where it first yields.\<close>

definition point_ctx :: "load_point \<Rightarrow> ctx" where
  "point_ctx p = (case p of Suspended asset c \<Rightarrow> c | Settled r \<Rightarrow> snd r)"

definition suspended :: "load_point \<Rightarrow> bool" where
  "suspended p = (case p of Suspended asset c \<Rightarrow> True | Settled r \<Rightarrow> False)"

section \<open>Sample values\<close>

text \<open>The bundled PDF before and after the download, and the handle the README shows.\<close>

definition bundled_asset :: Asset where
  "bundled_asset =
     \<lparr>Asset.uri = ''asset:/pdf/sample.pdf'', localUri = None, name = ''sample'',
      type = ''pdf'', hash = ''0f3a''\<rparr>"

definition actual_file :: File where
  "actual_file =
     \<lparr>File.uri = ''file:///data/user/0/com.test.app/files/sample.pdf'', name = ''sample.pdf'',
      size_bytes = 13264, type = ''application/pdf'', exists = True, contentUri = None\<rparr>"

definition expected_file :: File where
  "expected_file =
     actual_file\<lparr>contentUri := Some ''content://com.test.app.provider/files/sample.pdf''\<rparr>"

text \<open>
  The dump of a value with string-valued properties, indented by two spaces: \<open>{}\<close> when
  it has none, otherwise one line for each property between the braces. (The sample
  properties hold no character that a dump would escape.)
\<close>

definition dq :: string where
  "dq = [CHR 0x22]"

fun render_prop :: "string \<times> string \<Rightarrow> string" where
  "render_prop (k, v) = ''  '' @ dq @ k @ dq @ '': '' @ dq @ v @ dq"

fun join_props :: "string list \<Rightarrow> string" where
  "join_props [] = []"
| "join_props [x] = x"
| "join_props (x # y # ys) = x @ '','' @ nl @ join_props (y # ys)"

definition sample_stringify :: "js_error \<Rightarrow> string" where
  "sample_stringify e =
     (case e of
        Error m ps \<Rightarrow>
          (if ps = [] then ''{}''
           else ''{'' @ nl @ join_props (map render_prop ps) @ nl @ ''}'')
      | Cyclic m \<Rightarrow> []
      | Nullish \<Rightarrow> ''null'')"

text \<open>A device on which every collaborator succeeds and builds the handle \<open>f\<close>.\<close>

definition device :: "string \<Rightarrow> File \<Rightarrow> env" where
  "device os f =
     \<lparr>Platform_OS = os,
      Asset_fromModule = Inr bundled_asset,
      downloadAsync = (\<lambda>a. Inr (a\<lparr>localUri := Some ''file:///data/user/0/com.test.app/files/sample.pdf''\<rparr>)),
      File_new = (\<lambda>u. Inr (f\<lparr>File.uri := u\<rparr>)),
      startActivityAsync = (\<lambda>a p. Inr ()),
      JSON_stringify = sample_stringify\<rparr>"

definition initial_state :: state where
  "initial_state = \<lparr>fileObject = None, fileInfo = [], errorText = [], isLoading = False\<rparr>"

definition no_viewer :: js_error where
  "no_viewer = Error ''No Activity found to handle Intent'' [(''code'', ''ERR_INTENT'')]"

text \<open>Devices on which one collaborator behaves otherwise.\<close>

definition remote_only :: env where
  "remote_only = (device ''android'' actual_file)\<lparr>downloadAsync := Inr\<rparr>"

definition no_source :: env where
  "no_source = remote_only\<lparr>Asset_fromModule := Inr (bundled_asset\<lparr>Asset.uri := []\<rparr>)\<rparr>"

definition vanished :: env where
  "vanished = device ''android'' (actual_file\<lparr>exists := False\<rparr>)"

definition no_module :: env where
  "no_module =
     (device ''android'' actual_file)\<lparr>Asset_fromModule := Inl (Error ''Module not found'' [])\<rparr>"

definition offline :: env where
  "offline =
     (device ''android'' actual_file)
       \<lparr>downloadAsync := (\<lambda>a. Inl (Error ''Network request failed'' []))\<rparr>"

definition bad_constructor :: env where
  "bad_constructor =
     (device ''android'' actual_file)\<lparr>File_new := (\<lambda>u. Inl (Error ''Invalid URI'' []))\<rparr>"

definition viewerless :: env where
  "viewerless =
     (device ''android'' expected_file)\<lparr>startActivityAsync := (\<lambda>a p. Inl no_viewer)\<rparr>"

text \<open>Devices on which a collaborator throws a value that a \<open>catch\<close> block cannot show.\<close>

definition null_rejection :: env where
  "null_rejection =
     (device ''android'' expected_file)\<lparr>startActivityAsync := (\<lambda>a p. Inl Nullish)\<rparr>"

definition cyclic_download :: env where
  "cyclic_download =
     (device ''android'' actual_file)\<lparr>downloadAsync := (\<lambda>a. Inl (Cyclic ''Request failed''))\<rparr>"

text \<open>A screen that still holds the handle of an earlier load.\<close>

definition loaded_state :: "File \<Rightarrow> state" where
  "loaded_state f = initial_state\<lparr>fileObject := Some f\<rparr>"

section \<open>Unfolding the handlers\<close>

lemmas effect_defs = emit_def setErrorText_def setFileInfo_def setFileObject_def
  setIsLoading_def console_log_def console_error_def Alert_alert_def

lemmas catch_defs = read_message_def stringify_def TypeError_nullish_def TypeError_cyclic_def
  showable_def

lemmas load_defs = loadFileFromAsset_def loadFileFromAsset_begin_def
  loadFileFromAsset_resume_def load_try_begin_def load_try_rest_def load_settle_def
  load_catch_def load_finally_def

lemmas open_defs = openFileWithIntent_def open_try_def open_catch_def

lemmas read_defs = state_after_def log_of_def intent_calls_def file_news_def
  handle_writes_def other_writes_def catch_entries_def point_ctx_def suspended_def

lemmas run_defs = load_defs open_defs catch_defs effect_defs read_defs fileUri_of_def
  truthy_def string_of_def Let_def

lemmas sample_defs = bundled_asset_def actual_file_def expected_file_def device_def
  initial_state_def no_viewer_def remote_only_def no_source_def vanished_def no_module_def
  offline_def bad_constructor_def viewerless_def loaded_state_def null_rejection_def
  cyclic_download_def sample_stringify_def dq_def

section \<open>Operation 2 without a handle, or off Android\<close>

text \<open>
  Claim C4. When no file handle is held (\<open>fileObject\<close> is null), \<open>openFileWithIntent\<close>
  shows the notice "Please load the file first" and returns: the state is unchanged and the
  alert is the only call made, whatever the platform and the collaborators are. It reaches
  neither the platform test nor the \<open>contentUri\<close> test nor the intent launcher.
\<close>

theorem openFileWithIntent_no_file:
  assumes "fileObject s = None"
  shows "openFileWithIntent env s =
           (Fulfilled, s, [AlertAlert ''No File'' ''Please load the file first''])"
  using assms by (simp add: openFileWithIntent_def Alert_alert_def emit_def)

theorem openFileWithIntent_no_file_witness:
  "fileObject initial_state = None
   \<and> openFileWithIntent (device ''android'' actual_file) initial_state =
       (Fulfilled, initial_state, [AlertAlert ''No File'' ''Please load the file first''])"
proof -
  have empty: "fileObject initial_state = None"
    by (simp add: initial_state_def)
  show ?thesis
    using empty openFileWithIntent_no_file [OF empty, of "device ''android'' actual_file"]
    by blast
qed

text \<open>
  Claim C5. When a handle is held and the platform is not Android, \<open>openFileWithIntent\<close>
  sets the error text to "IntentLauncher is only available on Android", shows it in an
  alert and returns. The result does not depend on the handle, so \<open>contentUri\<close> is not
  read, and the intent launcher is not called.
\<close>

theorem openFileWithIntent_not_android:
  assumes "fileObject s = Some f" and "Platform_OS env \<noteq> ''android''"
  shows "openFileWithIntent env s =
           (Fulfilled,
            s\<lparr>errorText := ''IntentLauncher is only available on Android''\<rparr>,
            [SetErrorText ''IntentLauncher is only available on Android'',
             AlertAlert ''Android Only'' ''IntentLauncher is only available on Android''])"
  using assms by (simp add: openFileWithIntent_def effect_defs)

theorem openFileWithIntent_not_android_witness:
  "fileObject (initial_state\<lparr>fileObject := Some expected_file\<rparr>) = Some expected_file
   \<and> Platform_OS (device ''ios'' expected_file) \<noteq> ''android''
   \<and> openFileWithIntent (device ''ios'' expected_file)
         (initial_state\<lparr>fileObject := Some expected_file\<rparr>) =
           (Fulfilled,
            initial_state\<lparr>fileObject := Some expected_file,
                          errorText := ''IntentLauncher is only available on Android''\<rparr>,
            [SetErrorText ''IntentLauncher is only available on Android'',
             AlertAlert ''Android Only'' ''IntentLauncher is only available on Android''])"
proof -
  have held: "fileObject (initial_state\<lparr>fileObject := Some expected_file\<rparr>) = Some expected_file"
    by simp
  have other: "Platform_OS (device ''ios'' expected_file) \<noteq> ''android''"
    by (simp add: device_def)
  show ?thesis
    using held other openFileWithIntent_not_android [OF held other]
    by blast
qed

section \<open>Operation 2 on Android with a handle\<close>



text \<open>
  Claim C3. When a handle is held, the platform is Android and the handle's
  \<open>contentUri\<close> is a non-empty string \<open>u\<close>, \<open>openFileWithIntent\<close> calls
  \<open>IntentLauncher.startActivityAsync\<close> exactly once, with the action
  \<open>android.intent.action.VIEW\<close>, the data \<open>u\<close>, the flags 1 and the type
  \<open>application/pdf\<close>. It shows the "Success" alert if and only if that call resolves.
\<close>

theorem openFileWithIntent_calls_viewer:
  assumes "fileObject s = Some f" and "Platform_OS env = ''android''"
    and "contentUri f = Some u" and "u \<noteq> []"
  shows "intent_calls (log_of (openFileWithIntent env s)) =
           [(''android.intent.action.VIEW'',
             \<lparr>data = u, flags = 1, type = ''application/pdf''\<rparr>)]
         \<and> (AlertAlert ''Success'' ''PDF opened with IntentLauncher''
               \<in> set (log_of (openFileWithIntent env s))
             \<longleftrightarrow> startActivityAsync env ''android.intent.action.VIEW''
                   \<lparr>data = u, flags = 1, type = ''application/pdf''\<rparr> = Inr ())"
proof (cases "startActivityAsync env ''android.intent.action.VIEW''
                \<lparr>data = u, flags = 1, type = ''application/pdf''\<rparr>")
  case (Inl e)
  with assms show ?thesis
    by (simp add: open_defs catch_defs effect_defs read_defs truthy_def string_of_def Let_def
        split: js_error.splits)
next
  case (Inr r)
  with assms show ?thesis
    by (simp add: open_defs effect_defs read_defs truthy_def string_of_def Let_def)
qed

theorem openFileWithIntent_calls_viewer_witness:
  "fileObject (initial_state\<lparr>fileObject := Some expected_file\<rparr>) = Some expected_file
   \<and> Platform_OS (device ''android'' expected_file) = ''android''
   \<and> contentUri expected_file = Some ''content://com.test.app.provider/files/sample.pdf''
   \<and> intent_calls (log_of (openFileWithIntent (device ''android'' expected_file)
         (initial_state\<lparr>fileObject := Some expected_file\<rparr>))) =
         [(''android.intent.action.VIEW'',
           \<lparr>data = ''content://com.test.app.provider/files/sample.pdf'', flags = 1,
            type = ''application/pdf''\<rparr>)]
   \<and> AlertAlert ''Success'' ''PDF opened with IntentLauncher''
         \<in> set (log_of (openFileWithIntent (device ''android'' expected_file)
               (initial_state\<lparr>fileObject := Some expected_file\<rparr>)))"
proof -
  have held: "fileObject (initial_state\<lparr>fileObject := Some expected_file\<rparr>) = Some expected_file"
    by simp
  have android: "Platform_OS (device ''android'' expected_file) = ''android''"
    by (simp add: device_def)
  have present: "contentUri expected_file = Some ''content://com.test.app.provider/files/sample.pdf''"
    by (simp add: expected_file_def)
  have nonempty: "''content://com.test.app.provider/files/sample.pdf'' \<noteq> []"
    by simp
  have resolves: "startActivityAsync (device ''android'' expected_file) a p = Inr ()" for a p
    by (simp add: device_def)
  show ?thesis
    using held android present resolves
      openFileWithIntent_calls_viewer [OF held android present nonempty]
    by blast
qed

section \<open>The paths of the two handlers\<close>

text \<open>The source expression \<open>asset.localUri || asset.uri\<close>, by cases.\<close>

lemma fileUri_of_local: "localUri a = Some l \<Longrightarrow> l \<noteq> [] \<Longrightarrow> fileUri_of a = l"
  by (simp add: fileUri_of_def truthy_def string_of_def)

lemma fileUri_of_remote:
  "localUri a = None \<or> localUri a = Some [] \<Longrightarrow> fileUri_of a = Asset.uri a"
  by (auto simp: fileUri_of_def truthy_def)

text \<open>
  The six ways through \<open>loadFileFromAsset\<close>: each collaborator may throw, each of the
  two tests of the handler may fail, or the handle is stored.
\<close>

lemma load_paths [case_names fromModule_throws download_rejects no_uri constructor_throws
    not_existing loaded]:
  obtains e where "Asset_fromModule env = Inl e"
  | a e where "Asset_fromModule env = Inr a" and "downloadAsync env a = Inl e"
  | a a' where "Asset_fromModule env = Inr a" and "downloadAsync env a = Inr a'"
      and "fileUri_of a' = []"
  | a a' e where "Asset_fromModule env = Inr a" and "downloadAsync env a = Inr a'"
      and "fileUri_of a' \<noteq> []" and "File_new env (fileUri_of a') = Inl e"
  | a a' f where "Asset_fromModule env = Inr a" and "downloadAsync env a = Inr a'"
      and "fileUri_of a' \<noteq> []" and "File_new env (fileUri_of a') = Inr f" and "\<not> exists f"
  | a a' f where "Asset_fromModule env = Inr a" and "downloadAsync env a = Inr a'"
      and "fileUri_of a' \<noteq> []" and "File_new env (fileUri_of a') = Inr f" and "exists f"
proof (cases "Asset_fromModule env")
  case (Inl e)
  then show ?thesis using that(1) by blast
next
  case a: (Inr a)
  show ?thesis
  proof (cases "downloadAsync env a")
    case (Inl e)
    with a show ?thesis using that(2) by blast
  next
    case a': (Inr a')
    show ?thesis
    proof (cases "fileUri_of a' = []")
      case True
      with a a' show ?thesis using that(3) by blast
    next
      case uri: False
      show ?thesis
      proof (cases "File_new env (fileUri_of a')")
        case (Inl e)
        with a a' uri show ?thesis using that(4) by blast
      next
        case (Inr f)
        with a a' uri show ?thesis using that(5,6) by blast
      qed
    qed
  qed
qed

text \<open>The five ways through \<open>openFileWithIntent\<close>.\<close>

lemma open_paths [case_names no_file not_android missing rejected opened]:
  obtains "fileObject s = None"
  | f where "fileObject s = Some f" and "Platform_OS env \<noteq> ''android''"
  | f where "fileObject s = Some f" and "Platform_OS env = ''android''"
      and "\<not> truthy (contentUri f)"
  | f e where "fileObject s = Some f" and "Platform_OS env = ''android''"
      and "truthy (contentUri f)"
      and "startActivityAsync env ''android.intent.action.VIEW''
             \<lparr>data = string_of (contentUri f), flags = 1, type = ''application/pdf''\<rparr> = Inl e"
  | f where "fileObject s = Some f" and "Platform_OS env = ''android''"
      and "truthy (contentUri f)"
      and "startActivityAsync env ''android.intent.action.VIEW''
             \<lparr>data = string_of (contentUri f), flags = 1, type = ''application/pdf''\<rparr> = Inr ()"
proof (cases "fileObject s")
  case None
  then show ?thesis using that(1) by blast
next
  case held: (Some f)
  show ?thesis
  proof (cases "Platform_OS env = ''android''")
    case False
    with held show ?thesis using that(2) by blast
  next
    case android: True
    show ?thesis
    proof (cases "truthy (contentUri f)")
      case False
      with held android show ?thesis using that(3) by blast
    next
      case present: True
      show ?thesis
      proof (cases "startActivityAsync env ''android.intent.action.VIEW''
             \<lparr>data = string_of (contentUri f), flags = 1, type = ''application/pdf''\<rparr>")
        case (Inl e)
        with held android present show ?thesis using that(4) by blast
      next
        case (Inr u)
        with held android present show ?thesis using that(5) by simp
      qed
    qed
  qed
qed

section \<open>What each path of Operation 1 leaves behind\<close>

lemma load_fromModule_throws:
  assumes "Asset_fromModule env = Inl e"
  shows "showable e \<Longrightarrow> load_failure_shown env e (loadFileFromAsset env s)"
    and "fileObject (state_after (loadFileFromAsset env s)) = None"
    and "handle_writes (log_of (loadFileFromAsset env s)) = []"
    and "file_news (log_of (loadFileFromAsset env s)) = []"
    and "catch_entries (log_of (loadFileFromAsset env s)) = [e]"
    and "isLoading (state_after (loadFileFromAsset env s)) = False"
  using assms
  by (simp_all add: load_failure_shown_def load_defs catch_defs effect_defs read_defs Let_def
      split: js_error.splits)

lemma load_download_rejects:
  assumes "Asset_fromModule env = Inr a" and "downloadAsync env a = Inl e"
  shows "showable e \<Longrightarrow> load_failure_shown env e (loadFileFromAsset env s)"
    and "fileObject (state_after (loadFileFromAsset env s)) = None"
    and "handle_writes (log_of (loadFileFromAsset env s)) = []"
    and "file_news (log_of (loadFileFromAsset env s)) = []"
    and "catch_entries (log_of (loadFileFromAsset env s)) = [e]"
    and "isLoading (state_after (loadFileFromAsset env s)) = False"
  using assms
  by (simp_all add: load_failure_shown_def load_defs catch_defs effect_defs read_defs Let_def
      split: js_error.splits)

lemma load_no_uri:
  assumes "Asset_fromModule env = Inr a" and "downloadAsync env a = Inr a'"
    and "fileUri_of a' = []"
  shows "load_failure_shown env (Error ''No valid URI from asset'' []) (loadFileFromAsset env s)"
    and "fileObject (state_after (loadFileFromAsset env s)) = None"
    and "handle_writes (log_of (loadFileFromAsset env s)) = []"
    and "file_news (log_of (loadFileFromAsset env s)) = []"
    and "catch_entries (log_of (loadFileFromAsset env s)) = [Error ''No valid URI from asset'' []]"
    and "isLoading (state_after (loadFileFromAsset env s)) = False"
  using assms
  by (simp_all add: load_failure_shown_def load_defs catch_defs effect_defs read_defs Let_def)

lemma load_constructor_throws:
  assumes "Asset_fromModule env = Inr a" and "downloadAsync env a = Inr a'"
    and "fileUri_of a' \<noteq> []" and "File_new env (fileUri_of a') = Inl e"
  shows "showable e \<Longrightarrow> load_failure_shown env e (loadFileFromAsset env s)"
    and "fileObject (state_after (loadFileFromAsset env s)) = None"
    and "handle_writes (log_of (loadFileFromAsset env s)) = []"
    and "file_news (log_of (loadFileFromAsset env s)) = [fileUri_of a']"
    and "catch_entries (log_of (loadFileFromAsset env s)) = [e]"
    and "isLoading (state_after (loadFileFromAsset env s)) = False"
  using assms
  by (simp_all add: load_failure_shown_def load_defs catch_defs effect_defs read_defs Let_def
      split: js_error.splits)

lemma load_not_existing:
  assumes "Asset_fromModule env = Inr a" and "downloadAsync env a = Inr a'"
    and "fileUri_of a' \<noteq> []" and "File_new env (fileUri_of a') = Inr f" and "\<not> exists f"
  shows "load_failure_shown env (Error ''File does not exist'' []) (loadFileFromAsset env s)"
    and "fileObject (state_after (loadFileFromAsset env s)) = None"
    and "handle_writes (log_of (loadFileFromAsset env s)) = []"
    and "file_news (log_of (loadFileFromAsset env s)) = [fileUri_of a']"
    and "catch_entries (log_of (loadFileFromAsset env s)) = [Error ''File does not exist'' []]"
    and "isLoading (state_after (loadFileFromAsset env s)) = False"
  using assms
  by (simp_all add: load_failure_shown_def load_defs catch_defs effect_defs read_defs Let_def)

lemma load_loaded:
  assumes "Asset_fromModule env = Inr a" and "downloadAsync env a = Inr a'"
    and "fileUri_of a' \<noteq> []" and "File_new env (fileUri_of a') = Inr f" and "exists f"
  shows "catch_entries (log_of (loadFileFromAsset env s)) = []"
    and "state_after (loadFileFromAsset env s) =
          \<lparr>fileObject = Some f, fileInfo = [], errorText = [], isLoading = False\<rparr>"
    and "handle_writes (log_of (loadFileFromAsset env s)) = [f]"
    and "file_news (log_of (loadFileFromAsset env s)) = [fileUri_of a']"
    and "fst (loadFileFromAsset env s) = Fulfilled"
  using assms
  by (simp_all add: load_defs effect_defs read_defs Let_def)

lemma load_resets_isLoading: "isLoading (state_after (loadFileFromAsset env s)) = False"
proof (cases rule: load_paths [of env])
  case (fromModule_throws e)
  then show ?thesis by (rule load_fromModule_throws(6))
next
  case (download_rejects a e)
  then show ?thesis by (rule load_download_rejects(6))
next
  case (no_uri a a')
  then show ?thesis by (rule load_no_uri(6))
next
  case (constructor_throws a a' e)
  then show ?thesis by (rule load_constructor_throws(6))
next
  case (not_existing a a' f)
  then show ?thesis by (rule load_not_existing(6))
next
  case (loaded a a' f)
  then show ?thesis by (simp add: load_loaded(2))
qed

lemma load_failure_shown_caught:
  "load_failure_shown env e r \<Longrightarrow> catch_entries (log_of r) = [e]"
  by (simp add: load_failure_shown_def)

lemma load_failure_shown_fulfilled:
  "load_failure_shown env e r \<Longrightarrow> fst r = Fulfilled"
  by (simp add: load_failure_shown_def)

lemma load_caught_shown:
  assumes "e \<in> set (catch_entries (log_of (loadFileFromAsset env s)))" and "showable e"
  shows "load_failure_shown env e (loadFileFromAsset env s)"
proof (cases rule: load_paths [of env])
  case (fromModule_throws e')
  with assms show ?thesis
    using load_fromModule_throws(1,5) [of env e' s] by simp
next
  case (download_rejects a e')
  with assms show ?thesis
    using load_download_rejects(1,5) [of env a e' s] by simp
next
  case (no_uri a a')
  with assms show ?thesis
    using load_no_uri(1,5) [of env a a' s] by simp
next
  case (constructor_throws a a' e')
  with assms show ?thesis
    using load_constructor_throws(1,5) [of env a a' e' s] by simp
next
  case (not_existing a a' f)
  with assms show ?thesis
    using load_not_existing(1,5) [of env a a' f s] by simp
next
  case (loaded a a' f)
  with assms show ?thesis by (simp add: load_loaded)
qed

lemma load_fulfilled:
  assumes "\<forall>e \<in> set (catch_entries (log_of (loadFileFromAsset env s))). showable e"
  shows "fst (loadFileFromAsset env s) = Fulfilled"
proof (cases "catch_entries (log_of (loadFileFromAsset env s))")
  case Nil
  then show ?thesis
  proof (cases rule: load_paths [of env])
    case (fromModule_throws e)
    with Nil show ?thesis using load_fromModule_throws(5) [of env e s] by simp
  next
    case (download_rejects a e)
    with Nil show ?thesis using load_download_rejects(5) [of env a e s] by simp
  next
    case (no_uri a a')
    with Nil show ?thesis using load_no_uri(5) [of env a a' s] by simp
  next
    case (constructor_throws a a' e)
    with Nil show ?thesis using load_constructor_throws(5) [of env a a' e s] by simp
  next
    case (not_existing a a' f)
    with Nil show ?thesis using load_not_existing(5) [of env a a' f s] by simp
  next
    case (loaded a a' f)
    then show ?thesis by (rule load_loaded(5))
  qed
next
  case (Cons e es)
  then have "e \<in> set (catch_entries (log_of (loadFileFromAsset env s)))"
    by simp
  with assms have "load_failure_shown env e (loadFileFromAsset env s)"
    using load_caught_shown by blast
  then show ?thesis by (rule load_failure_shown_fulfilled)
qed

lemma load_file_news:
  assumes "Asset_fromModule env = Inr a" and "downloadAsync env a = Inr a'"
  shows "file_news (log_of (loadFileFromAsset env s)) =
           (if fileUri_of a' = [] then [] else [fileUri_of a'])"
proof (cases rule: load_paths [of env])
  case (fromModule_throws e)
  with assms show ?thesis by simp
next
  case (download_rejects a e)
  with assms show ?thesis by simp
next
  case (no_uri b b')
  with assms show ?thesis by (simp add: load_no_uri(4))
next
  case (constructor_throws b b' e)
  with assms show ?thesis by (simp add: load_constructor_throws(4))
next
  case (not_existing b b' f)
  with assms show ?thesis by (simp add: load_not_existing(4))
next
  case (loaded b b' f)
  with assms show ?thesis by (simp add: load_loaded(4))
qed

lemma load_handle_writes:
  "handle_writes (log_of (loadFileFromAsset env s)) =
     (case fileObject (state_after (loadFileFromAsset env s)) of None \<Rightarrow> [] | Some f \<Rightarrow> [f])"
proof (cases rule: load_paths [of env])
  case (fromModule_throws e)
  then show ?thesis by (simp add: load_fromModule_throws)
next
  case (download_rejects a e)
  then show ?thesis by (simp add: load_download_rejects)
next
  case (no_uri a a')
  then show ?thesis by (simp add: load_no_uri)
next
  case (constructor_throws a a' e)
  then show ?thesis by (simp add: load_constructor_throws)
next
  case (not_existing a a' f)
  then show ?thesis by (simp add: load_not_existing)
next
  case (loaded a a' f)
  then show ?thesis by (simp add: load_loaded)
qed

lemma load_failed_iff:
  "fileObject (state_after (loadFileFromAsset env s)) = None
   \<longleftrightarrow> catch_entries (log_of (loadFileFromAsset env s)) \<noteq> []"
proof (cases rule: load_paths [of env])
  case (fromModule_throws e)
  then show ?thesis by (simp add: load_fromModule_throws)
next
  case (download_rejects a e)
  then show ?thesis by (simp add: load_download_rejects)
next
  case (no_uri a a')
  then show ?thesis by (simp add: load_no_uri)
next
  case (constructor_throws a a' e)
  then show ?thesis by (simp add: load_constructor_throws)
next
  case (not_existing a a' f)
  then show ?thesis by (simp add: load_not_existing)
next
  case (loaded a a' f)
  then show ?thesis by (simp add: load_loaded)
qed

lemma load_clears_first:
  "take 3 (log_of (loadFileFromAsset env s)) =
     [SetErrorText [], SetFileInfo [], SetFileObject None]"
  by (cases rule: load_paths [of env])
     (simp_all add: load_defs catch_defs effect_defs read_defs Let_def split: js_error.splits)

lemma load_handle_checked:
  assumes "f \<in> set (handle_writes (log_of (loadFileFromAsset env s)))"
  shows "exists f \<and> (\<exists>a a'. Asset_fromModule env = Inr a \<and> downloadAsync env a = Inr a'
           \<and> fileUri_of a' \<noteq> [] \<and> File_new env (fileUri_of a') = Inr f)"
proof (cases rule: load_paths [of env])
  case (fromModule_throws e)
  with assms show ?thesis by (simp add: load_fromModule_throws)
next
  case (download_rejects a e)
  with assms show ?thesis by (simp add: load_download_rejects)
next
  case (no_uri a a')
  with assms show ?thesis by (simp add: load_no_uri)
next
  case (constructor_throws a a' e)
  with assms show ?thesis by (simp add: load_constructor_throws)
next
  case (not_existing a a' f')
  with assms show ?thesis by (simp add: load_not_existing)
next
  case (loaded a a' f')
  with assms show ?thesis by (simp add: load_loaded)
qed

lemma load_handle_written_once:
  "length (handle_writes (log_of (loadFileFromAsset env s))) \<le> 1"
  by (simp add: load_handle_writes split: option.splits)

lemma begin_clears:
  "take 3 (snd (point_ctx (loadFileFromAsset_begin env s))) =
     [SetErrorText [], SetFileInfo [], SetFileObject None]"
  "fileObject (fst (point_ctx (loadFileFromAsset_begin env s))) = None"
  "fileInfo (fst (point_ctx (loadFileFromAsset_begin env s))) = []"
  by (simp_all add: load_defs catch_defs effect_defs read_defs Let_def
      split: sum.splits js_error.splits)

lemma begin_suspended:
  "suspended (loadFileFromAsset_begin env s) \<Longrightarrow>
   fst (point_ctx (loadFileFromAsset_begin env s)) =
     \<lparr>fileObject = None, fileInfo = [], errorText = [], isLoading = True\<rparr>"
  by (simp add: load_defs effect_defs read_defs Let_def split: sum.splits)

section \<open>What each path of Operation 2 leaves behind\<close>

lemma open_without_handle:
  "fileObject s = None \<Longrightarrow>
   openFileWithIntent env s = (Fulfilled, s, [AlertAlert ''No File'' ''Please load the file first''])"
  by (simp add: openFileWithIntent_def Alert_alert_def emit_def)

lemma open_off_android:
  "fileObject s = Some f \<Longrightarrow> Platform_OS env \<noteq> ''android'' \<Longrightarrow>
   openFileWithIntent env s =
     (Fulfilled,
      s\<lparr>errorText := ''IntentLauncher is only available on Android''\<rparr>,
      [SetErrorText ''IntentLauncher is only available on Android'',
       AlertAlert ''Android Only'' ''IntentLauncher is only available on Android''])"
  by (simp add: openFileWithIntent_def effect_defs)

lemma open_missing:
  "fileObject s = Some f \<Longrightarrow> Platform_OS env = ''android'' \<Longrightarrow> \<not> truthy (contentUri f) \<Longrightarrow>
   openFileWithIntent env s =
     (Fulfilled,
      s\<lparr>errorText := contentUri_missing\<rparr>,
      [SetErrorText [],
       ConsoleLog [Str (emoji_rocket @ '' Attempting to open file with IntentLauncher...'')],
       SetErrorText contentUri_missing,
       AlertAlert ''ContentURI Missing'' contentUri_missing,
       ConsoleError [Str emoji_cross, Str contentUri_missing]])"
  by (simp add: open_defs effect_defs Let_def)

lemma open_resolved:
  assumes "fileObject s = Some f" and "Platform_OS env = ''android''"
    and "truthy (contentUri f)"
    and "startActivityAsync env ''android.intent.action.VIEW''
           \<lparr>data = string_of (contentUri f), flags = 1, type = ''application/pdf''\<rparr> = Inr ()"
  shows "fst (openFileWithIntent env s) = Fulfilled"
    and "catch_entries (log_of (openFileWithIntent env s)) = []"
    and "errorText (state_after (openFileWithIntent env s)) = []"
  using assms
  by (simp_all add: open_defs effect_defs read_defs Let_def)

lemma open_rejected:
  assumes "fileObject s = Some f" and "Platform_OS env = ''android''"
    and "truthy (contentUri f)"
    and "startActivityAsync env ''android.intent.action.VIEW''
           \<lparr>data = string_of (contentUri f), flags = 1, type = ''application/pdf''\<rparr> = Inl e"
    and "showable e"
  shows "open_failure_shown env e (openFileWithIntent env s)"
  using assms
  by (simp add: open_failure_shown_def open_defs catch_defs effect_defs read_defs Let_def
      split: js_error.splits)

lemma open_frame:
  "fileObject (state_after (openFileWithIntent env s)) = fileObject s"
  "fileInfo (state_after (openFileWithIntent env s)) = fileInfo s"
  "isLoading (state_after (openFileWithIntent env s)) = isLoading s"
  "other_writes (log_of (openFileWithIntent env s)) = []"
  by (cases rule: open_paths [where s = s and env = env];
      simp add: open_defs catch_defs effect_defs read_defs Let_def split: js_error.splits)+

lemma open_caught_shown:
  assumes "e \<in> set (catch_entries (log_of (openFileWithIntent env s)))"
  shows "open_failure_shown env e (openFileWithIntent env s)"
  using assms
  by (cases rule: open_paths [where s = s and env = env])
     (simp_all add: open_failure_shown_def open_defs catch_defs effect_defs read_defs Let_def
       split: js_error.splits)

lemma open_catch_needs_call:
  "intent_calls (log_of (openFileWithIntent env s)) = [] \<Longrightarrow>
   catch_entries (log_of (openFileWithIntent env s)) = []"
  by (cases rule: open_paths [where s = s and env = env])
     (simp_all add: open_defs catch_defs effect_defs read_defs Let_def split: js_error.splits)

section \<open>Operation 1: the source of the handle\<close>

text \<open>
  Claim C6. In \<open>loadFileFromAsset\<close>, once the asset is resolved and downloaded, the file
  handle is constructed from the asset's local URI when that is a non-empty string, and
  otherwise from its remote URI when that is non-empty: the constructor is called exactly
  once, with that URI. When neither URI is usable the constructor is never called, the value
  caught is the error "No valid URI from asset", and no handle is held afterwards.
\<close>

theorem loadFileFromAsset_source_uri:
  assumes "Asset_fromModule env = Inr a" and "downloadAsync env a = Inr a'"
  shows "(\<forall>l. localUri a' = Some l \<and> l \<noteq> []
            \<longrightarrow> file_news (log_of (loadFileFromAsset env s)) = [l])
         \<and> ((localUri a' = None \<or> localUri a' = Some []) \<and> Asset.uri a' \<noteq> []
            \<longrightarrow> file_news (log_of (loadFileFromAsset env s)) = [Asset.uri a'])
         \<and> ((localUri a' = None \<or> localUri a' = Some []) \<and> Asset.uri a' = []
            \<longrightarrow> file_news (log_of (loadFileFromAsset env s)) = []
                \<and> catch_entries (log_of (loadFileFromAsset env s)) =
                    [Error ''No valid URI from asset'' []]
                \<and> fileObject (state_after (loadFileFromAsset env s)) = None)"
proof (intro conjI allI impI)
  fix l
  assume "localUri a' = Some l \<and> l \<noteq> []"
  then have "fileUri_of a' = l" and "l \<noteq> []"
    by (simp_all add: fileUri_of_local)
  then show "file_news (log_of (loadFileFromAsset env s)) = [l]"
    using load_file_news [OF assms, of s] by simp
next
  assume "(localUri a' = None \<or> localUri a' = Some []) \<and> Asset.uri a' \<noteq> []"
  then have "fileUri_of a' = Asset.uri a'" and "Asset.uri a' \<noteq> []"
    by (simp_all add: fileUri_of_remote)
  then show "file_news (log_of (loadFileFromAsset env s)) = [Asset.uri a']"
    using load_file_news [OF assms, of s] by simp
next
  assume none: "(localUri a' = None \<or> localUri a' = Some []) \<and> Asset.uri a' = []"
  then have empty: "fileUri_of a' = []"
    by (simp add: fileUri_of_remote)
  show "file_news (log_of (loadFileFromAsset env s)) = []"
    by (rule load_no_uri(4) [OF assms empty])
  show "catch_entries (log_of (loadFileFromAsset env s)) = [Error ''No valid URI from asset'' []]"
    by (rule load_failure_shown_caught [OF load_no_uri(1) [OF assms empty]])
  show "fileObject (state_after (loadFileFromAsset env s)) = None"
    by (rule load_no_uri(2) [OF assms empty])
qed

theorem loadFileFromAsset_source_uri_witness:
  "file_news (log_of (loadFileFromAsset (device ''android'' actual_file) initial_state)) =
     [''file:///data/user/0/com.test.app/files/sample.pdf'']
   \<and> file_news (log_of (loadFileFromAsset remote_only initial_state)) =
     [''asset:/pdf/sample.pdf'']
   \<and> file_news (log_of (loadFileFromAsset no_source initial_state)) = []
   \<and> catch_entries (log_of (loadFileFromAsset no_source initial_state)) =
     [Error ''No valid URI from asset'' []]"
proof -
  let ?local = "bundled_asset\<lparr>localUri := Some ''file:///data/user/0/com.test.app/files/sample.pdf''\<rparr>"
  let ?none = "bundled_asset\<lparr>Asset.uri := []\<rparr>"
  have m1: "Asset_fromModule (device ''android'' actual_file) = Inr bundled_asset"
    and d1: "downloadAsync (device ''android'' actual_file) bundled_asset = Inr ?local"
    by (simp_all add: device_def)
  have l1: "localUri ?local = Some ''file:///data/user/0/com.test.app/files/sample.pdf''
            \<and> ''file:///data/user/0/com.test.app/files/sample.pdf'' \<noteq> []"
    by simp
  have m2: "Asset_fromModule remote_only = Inr bundled_asset"
    and d2: "downloadAsync remote_only bundled_asset = Inr bundled_asset"
    by (simp_all add: remote_only_def device_def)
  have l2: "(localUri bundled_asset = None \<or> localUri bundled_asset = Some [])
            \<and> Asset.uri bundled_asset \<noteq> []"
    and u2: "Asset.uri bundled_asset = ''asset:/pdf/sample.pdf''"
    by (simp_all add: bundled_asset_def)
  have m3: "Asset_fromModule no_source = Inr ?none"
    and d3: "downloadAsync no_source ?none = Inr ?none"
    by (simp_all add: no_source_def remote_only_def device_def)
  have l3: "(localUri ?none = None \<or> localUri ?none = Some []) \<and> Asset.uri ?none = []"
    by (simp add: bundled_asset_def)
  show ?thesis
    using l1 l2 u2 l3
      loadFileFromAsset_source_uri [OF m1 d1, of initial_state]
      loadFileFromAsset_source_uri [OF m2 d2, of initial_state]
      loadFileFromAsset_source_uri [OF m3 d3, of initial_state]
    by simp
qed

section \<open>Operation 1: the two errors of the handler\<close>

text \<open>
  Claim C7. In \<open>loadFileFromAsset\<close>, when the constructed handle reports that the file
  does not exist, the handler fails with the error "File does not exist"; when no URI is
  usable it fails with "No valid URI from asset". Either error is caught by the handler:
  the error text becomes "Error: ", the message, a blank line and the JSON dump of the
  error, an alert shows "Failed to load file: " and the message, the promise of the
  handler is fulfilled, and \<open>isLoading\<close> is false afterwards.
\<close>

theorem loadFileFromAsset_errors_shown:
  assumes "Asset_fromModule env = Inr a" and "downloadAsync env a = Inr a'"
  shows "(fileUri_of a' = []
            \<longrightarrow> load_failure_shown env (Error ''No valid URI from asset'' [])
                  (loadFileFromAsset env s))
         \<and> (\<forall>f. fileUri_of a' \<noteq> [] \<and> File_new env (fileUri_of a') = Inr f \<and> \<not> exists f
            \<longrightarrow> load_failure_shown env (Error ''File does not exist'' [])
                  (loadFileFromAsset env s))
         \<and> isLoading (state_after (loadFileFromAsset env s)) = False"
  using load_no_uri(1) [OF assms] load_not_existing(1) [OF assms]
    load_resets_isLoading [of env s]
  by blast

theorem loadFileFromAsset_errors_shown_witness:
  "load_failure_shown no_source (Error ''No valid URI from asset'' [])
     (loadFileFromAsset no_source initial_state)
   \<and> load_failure_shown vanished (Error ''File does not exist'' [])
     (loadFileFromAsset vanished initial_state)
   \<and> errorText (state_after (loadFileFromAsset vanished initial_state)) =
       ''Error: File does not exist'' @ nl @ nl @ ''{}''
   \<and> isLoading (state_after (loadFileFromAsset vanished initial_state)) = False"
proof -
  let ?local = "bundled_asset\<lparr>localUri := Some ''file:///data/user/0/com.test.app/files/sample.pdf''\<rparr>"
  let ?none = "bundled_asset\<lparr>Asset.uri := []\<rparr>"
  let ?gone = "actual_file\<lparr>exists := False,
                 File.uri := ''file:///data/user/0/com.test.app/files/sample.pdf''\<rparr>"
  have m3: "Asset_fromModule no_source = Inr ?none"
    and d3: "downloadAsync no_source ?none = Inr ?none"
    by (simp_all add: no_source_def remote_only_def device_def)
  have u3: "fileUri_of ?none = []"
    by (simp add: fileUri_of_def truthy_def bundled_asset_def)
  have m4: "Asset_fromModule vanished = Inr bundled_asset"
    and d4: "downloadAsync vanished bundled_asset = Inr ?local"
    by (simp_all add: vanished_def device_def)
  have u4: "fileUri_of ?local \<noteq> [] \<and> File_new vanished (fileUri_of ?local) = Inr ?gone
            \<and> \<not> exists ?gone"
    by (simp add: fileUri_of_def truthy_def string_of_def vanished_def device_def)
  have json: "JSON_stringify vanished (Error m []) = ''{}''" for m
    by (simp add: vanished_def device_def sample_stringify_def)
  have shown: "load_failure_shown vanished (Error ''File does not exist'' [])
     (loadFileFromAsset vanished initial_state)"
    using u4 loadFileFromAsset_errors_shown [OF m4 d4, of initial_state] by blast
  then have shown_text: "errorText (state_after (loadFileFromAsset vanished initial_state)) =
       ''Error: File does not exist'' @ nl @ nl @ ''{}''"
    by (simp add: load_failure_shown_def json)
  show ?thesis
    using u3 shown shown_text
      loadFileFromAsset_errors_shown [OF m3 d3, of initial_state]
      loadFileFromAsset_errors_shown [OF m4 d4, of initial_state]
    by blast
qed

section \<open>Who writes the handle slot\<close>

text \<open>
  Claim C8. \<open>openFileWithIntent\<close> never writes the handle slot: on every path
  \<open>fileObject\<close>, \<open>fileInfo\<close> and \<open>isLoading\<close> are as before, and the only setter it
  calls is \<open>setErrorText\<close>. \<open>loadFileFromAsset\<close> writes a handle into the slot exactly
  once in a successful run: when the asset resolves and downloads, its URI is not empty
  and the constructor returns a handle that exists, that handle is the one handle written
  and the slot holds it afterwards. In every run the handles written are the one the slot
  holds at the end, if it holds one, and the slot is empty exactly when an error was caught.
\<close>

theorem handle_slot_written_by_load_only:
  "fileObject (state_after (openFileWithIntent env s)) = fileObject s
   \<and> fileInfo (state_after (openFileWithIntent env s)) = fileInfo s
   \<and> isLoading (state_after (openFileWithIntent env s)) = isLoading s
   \<and> other_writes (log_of (openFileWithIntent env s)) = []
   \<and> (\<forall>a a' f. Asset_fromModule env = Inr a \<and> downloadAsync env a = Inr a'
           \<and> fileUri_of a' \<noteq> [] \<and> File_new env (fileUri_of a') = Inr f \<and> exists f
         \<longrightarrow> handle_writes (log_of (loadFileFromAsset env s)) = [f]
             \<and> fileObject (state_after (loadFileFromAsset env s)) = Some f
             \<and> catch_entries (log_of (loadFileFromAsset env s)) = [])
   \<and> handle_writes (log_of (loadFileFromAsset env s)) =
       (case fileObject (state_after (loadFileFromAsset env s)) of
          None \<Rightarrow> [] | Some f \<Rightarrow> [f])
   \<and> (fileObject (state_after (loadFileFromAsset env s)) = None
       \<longleftrightarrow> catch_entries (log_of (loadFileFromAsset env s)) \<noteq> [])"
proof -
  have stored: "handle_writes (log_of (loadFileFromAsset env s)) = [f]
             \<and> fileObject (state_after (loadFileFromAsset env s)) = Some f
             \<and> catch_entries (log_of (loadFileFromAsset env s)) = []"
    if "Asset_fromModule env = Inr a" and "downloadAsync env a = Inr a'"
      and "fileUri_of a' \<noteq> []" and "File_new env (fileUri_of a') = Inr f" and "exists f"
    for a a' f
    using load_loaded(1,2,3) [OF that, of s] by simp
  show ?thesis
    using open_frame [of env s] load_handle_writes [of env s] load_failed_iff [of env s] stored
    by blast
qed

theorem handle_slot_written_by_load_only_witness:
  "handle_writes (log_of (loadFileFromAsset (device ''android'' actual_file) initial_state)) =
     [actual_file]
   \<and> fileObject (state_after (loadFileFromAsset (device ''android'' actual_file) initial_state)) =
     Some actual_file
   \<and> fileObject (state_after (openFileWithIntent (device ''android'' actual_file)
        (loaded_state actual_file))) = Some actual_file
   \<and> other_writes (log_of (openFileWithIntent (device ''android'' actual_file)
        (loaded_state actual_file))) = []"
proof -
  let ?local = "bundled_asset\<lparr>localUri := Some ''file:///data/user/0/com.test.app/files/sample.pdf''\<rparr>"
  have path: "Asset_fromModule (device ''android'' actual_file) = Inr bundled_asset
     \<and> downloadAsync (device ''android'' actual_file) bundled_asset = Inr ?local
     \<and> fileUri_of ?local \<noteq> []
     \<and> File_new (device ''android'' actual_file) (fileUri_of ?local) = Inr actual_file
     \<and> exists actual_file"
    by (simp add: device_def fileUri_of_def truthy_def string_of_def actual_file_def)
  have held: "fileObject (loaded_state actual_file) = Some actual_file"
    by (simp add: loaded_state_def)
  have stored: "handle_writes (log_of (loadFileFromAsset (device ''android'' actual_file)
        initial_state)) = [actual_file]
     \<and> fileObject (state_after (loadFileFromAsset (device ''android'' actual_file)
        initial_state)) = Some actual_file"
    using path handle_slot_written_by_load_only [of "device ''android'' actual_file" initial_state]
    by blast
  have frame: "fileObject (state_after (openFileWithIntent (device ''android'' actual_file)
        (loaded_state actual_file))) = Some actual_file
     \<and> other_writes (log_of (openFileWithIntent (device ''android'' actual_file)
        (loaded_state actual_file))) = []"
    using held
      handle_slot_written_by_load_only [of "device ''android'' actual_file" "loaded_state actual_file"]
    by simp
  show ?thesis
    using stored frame by blast
qed

section \<open>Operation 1: the slot while loading and after a failure\<close>

text \<open>
  Claim C10. Every run of \<open>loadFileFromAsset\<close> begins with the three calls that clear
  \<open>errorText\<close>, \<open>fileInfo\<close> and \<open>fileObject\<close>, before the handler first yields; where it
  is suspended on the download all three are empty and \<open>isLoading\<close> is true. A handle is
  written at most once, and only one that the constructor returned for a non-empty URI of
  the downloaded asset and that exists. After a run that caught an error the slot is empty,
  whatever it held before. \<open>openFileWithIntent\<close>, run on any device in the state of the
  suspended handler or in the state after a failed load, shows "Please load the file first"
  and does nothing else.
\<close>

theorem loadFileFromAsset_clears_first:
  "take 3 (log_of (loadFileFromAsset env s)) =
     [SetErrorText [], SetFileInfo [], SetFileObject None]
   \<and> take 3 (snd (point_ctx (loadFileFromAsset_begin env s))) =
     [SetErrorText [], SetFileInfo [], SetFileObject None]
   \<and> fileObject (fst (point_ctx (loadFileFromAsset_begin env s))) = None
   \<and> fileInfo (fst (point_ctx (loadFileFromAsset_begin env s))) = []
   \<and> (suspended (loadFileFromAsset_begin env s)
        \<longrightarrow> fst (point_ctx (loadFileFromAsset_begin env s)) =
              \<lparr>fileObject = None, fileInfo = [], errorText = [], isLoading = True\<rparr>)
   \<and> length (handle_writes (log_of (loadFileFromAsset env s))) \<le> 1
   \<and> (\<forall>f \<in> set (handle_writes (log_of (loadFileFromAsset env s))).
         exists f
         \<and> (\<exists>a a'. Asset_fromModule env = Inr a \<and> downloadAsync env a = Inr a'
               \<and> fileUri_of a' \<noteq> [] \<and> File_new env (fileUri_of a') = Inr f))
   \<and> (catch_entries (log_of (loadFileFromAsset env s)) \<noteq> []
        \<longrightarrow> fileObject (state_after (loadFileFromAsset env s)) = None)
   \<and> openFileWithIntent env' (fst (point_ctx (loadFileFromAsset_begin env s))) =
        (Fulfilled, fst (point_ctx (loadFileFromAsset_begin env s)),
         [AlertAlert ''No File'' ''Please load the file first''])
   \<and> (catch_entries (log_of (loadFileFromAsset env s)) \<noteq> []
        \<longrightarrow> openFileWithIntent env' (state_after (loadFileFromAsset env s)) =
              (Fulfilled, state_after (loadFileFromAsset env s),
               [AlertAlert ''No File'' ''Please load the file first'']))"
proof -
  have in_flight: "openFileWithIntent env' (fst (point_ctx (loadFileFromAsset_begin env s))) =
        (Fulfilled, fst (point_ctx (loadFileFromAsset_begin env s)),
         [AlertAlert ''No File'' ''Please load the file first''])"
    by (rule open_without_handle [OF begin_clears(2)])
  have failed: "fileObject (state_after (loadFileFromAsset env s)) = None"
    if "catch_entries (log_of (loadFileFromAsset env s)) \<noteq> []"
    using that load_failed_iff [of env s] by blast
  have after_failed: "openFileWithIntent env' (state_after (loadFileFromAsset env s)) =
              (Fulfilled, state_after (loadFileFromAsset env s),
               [AlertAlert ''No File'' ''Please load the file first''])"
    if "catch_entries (log_of (loadFileFromAsset env s)) \<noteq> []"
    by (rule open_without_handle [OF failed [OF that]])
  show ?thesis
    using load_clears_first [of env s] begin_clears [of env s] begin_suspended [of env s]
      load_handle_written_once [of env s] load_handle_checked [of _ env s]
      in_flight failed after_failed
    by blast
qed

theorem loadFileFromAsset_clears_first_witness:
  "suspended (loadFileFromAsset_begin vanished (loaded_state actual_file))
   \<and> fst (point_ctx (loadFileFromAsset_begin vanished (loaded_state actual_file))) =
       \<lparr>fileObject = None, fileInfo = [], errorText = [], isLoading = True\<rparr>
   \<and> catch_entries (log_of (loadFileFromAsset vanished (loaded_state actual_file))) \<noteq> []
   \<and> fileObject (state_after (loadFileFromAsset vanished (loaded_state actual_file))) = None
   \<and> openFileWithIntent (device ''android'' expected_file)
        (state_after (loadFileFromAsset vanished (loaded_state actual_file))) =
        (Fulfilled, state_after (loadFileFromAsset vanished (loaded_state actual_file)),
         [AlertAlert ''No File'' ''Please load the file first''])
   \<and> actual_file \<in> set (handle_writes (log_of
        (loadFileFromAsset (device ''android'' actual_file) (loaded_state actual_file))))
   \<and> exists actual_file"
proof -
  have susp: "suspended (loadFileFromAsset_begin vanished (loaded_state actual_file))"
    by (simp add: run_defs sample_defs)
  have caught: "catch_entries (log_of (loadFileFromAsset vanished (loaded_state actual_file))) \<noteq> []"
    by (simp add: run_defs sample_defs)
  have written: "actual_file \<in> set (handle_writes (log_of
        (loadFileFromAsset (device ''android'' actual_file) (loaded_state actual_file))))"
    by (simp add: run_defs sample_defs)
  show ?thesis
    using susp caught written
      loadFileFromAsset_clears_first
        [of vanished "loaded_state actual_file" "device ''android'' expected_file"]
      loadFileFromAsset_clears_first
        [of "device ''android'' actual_file" "loaded_state actual_file"
            "device ''android'' expected_file"]
    by blast
qed

section \<open>Failures and where they are caught\<close>

text \<open>
  Claim C9 says that every failure in either operation is caught at the operation boundary
  and rendered as a message plus a structured detail dump. The failure of a missing
  \<open>contentUri\<close> is not: on Android, with the handle the README shows, nothing is caught,
  and the error text is the bare message, without a line break and without a dump.
\<close>

theorem uncaught_failure_counterexample:
  "catch_entries (log_of (openFileWithIntent (device ''android'' actual_file)
      (loaded_state actual_file))) = []
   \<and> errorText (state_after (openFileWithIntent (device ''android'' actual_file)
      (loaded_state actual_file))) =
      ''contentUri is missing from the File object. This is the bug we are testing!''
   \<and> CHR 0x0A \<notin> set (errorText (state_after (openFileWithIntent (device ''android'' actual_file)
      (loaded_state actual_file))))"
  by (simp add: open_defs effect_defs read_defs sample_defs truthy_def contentUri_missing_def
      Let_def)

text \<open>
  Claim C9, as the handlers have it. After every run of \<open>loadFileFromAsset\<close>, successful
  or not, \<open>isLoading\<close> is false and the load button is enabled, so the user may always
  retrigger Operation 1. Every value thrown inside the \<open>try\<close> block of
  \<open>loadFileFromAsset\<close> (by \<open>Asset.fromModule\<close>, by \<open>downloadAsync\<close>, by the \<open>File\<close>
  constructor, by the two \<open>throw\<close> statements) is caught by its \<open>catch\<close> block. Every caught value whose message can be
  read and that \<open>JSON.stringify\<close> can dump, the rejection of \<open>startActivityAsync\<close>
  included, is shown as a message followed by a blank line and its JSON dump, and in an
  alert, and the promise of the handler is fulfilled; it is fulfilled as well when nothing
  is thrown. The failures \<open>openFileWithIntent\<close> finds by its own tests are returns, not
  caught values: without a handle it shows an alert and leaves the error text as it was;
  on another platform the error text is the bare notice; without a \<open>contentUri\<close> the error
  text is the bare "contentUri is missing" message; in all three there is no dump, and
  \<open>openFileWithIntent\<close> catches nothing unless it has called the intent launcher. Nothing
  is said here of a caught value that is \<open>null\<close> or cannot be dumped.
\<close>

theorem thrown_failures_caught_and_shown:
  "isLoading (state_after (loadFileFromAsset env s)) = False
   \<and> \<not> load_disabled (state_after (loadFileFromAsset env s))
   \<and> ((\<forall>e \<in> set (catch_entries (log_of (loadFileFromAsset env s))). showable e)
         \<longrightarrow> fst (loadFileFromAsset env s) = Fulfilled)
   \<and> (\<forall>e \<in> set (catch_entries (log_of (loadFileFromAsset env s))).
         showable e \<longrightarrow> load_failure_shown env e (loadFileFromAsset env s))
   \<and> (\<forall>e \<in> set (catch_entries (log_of (openFileWithIntent env s))).
         open_failure_shown env e (openFileWithIntent env s))
   \<and> (\<forall>e. Asset_fromModule env = Inl e
         \<longrightarrow> catch_entries (log_of (loadFileFromAsset env s)) = [e])
   \<and> (\<forall>a e. Asset_fromModule env = Inr a \<and> downloadAsync env a = Inl e
         \<longrightarrow> catch_entries (log_of (loadFileFromAsset env s)) = [e])
   \<and> (\<forall>a a' e. Asset_fromModule env = Inr a \<and> downloadAsync env a = Inr a'
           \<and> fileUri_of a' \<noteq> [] \<and> File_new env (fileUri_of a') = Inl e
         \<longrightarrow> catch_entries (log_of (loadFileFromAsset env s)) = [e])
   \<and> (\<forall>a a'. Asset_fromModule env = Inr a \<and> downloadAsync env a = Inr a'
           \<and> fileUri_of a' = []
         \<longrightarrow> catch_entries (log_of (loadFileFromAsset env s)) =
               [Error ''No valid URI from asset'' []])
   \<and> (\<forall>a a' f. Asset_fromModule env = Inr a \<and> downloadAsync env a = Inr a'
           \<and> fileUri_of a' \<noteq> [] \<and> File_new env (fileUri_of a') = Inr f \<and> \<not> exists f
         \<longrightarrow> catch_entries (log_of (loadFileFromAsset env s)) =
               [Error ''File does not exist'' []])
   \<and> (\<forall>f e. fileObject s = Some f \<and> Platform_OS env = ''android'' \<and> truthy (contentUri f)
           \<and> startActivityAsync env ''android.intent.action.VIEW''
                \<lparr>data = string_of (contentUri f), flags = 1, type = ''application/pdf''\<rparr> = Inl e
           \<and> showable e
         \<longrightarrow> open_failure_shown env e (openFileWithIntent env s))
   \<and> (\<forall>f. fileObject s = Some f \<and> Platform_OS env = ''android'' \<and> truthy (contentUri f)
           \<and> startActivityAsync env ''android.intent.action.VIEW''
                \<lparr>data = string_of (contentUri f), flags = 1, type = ''application/pdf''\<rparr> = Inr ()
         \<longrightarrow> fst (openFileWithIntent env s) = Fulfilled
             \<and> catch_entries (log_of (openFileWithIntent env s)) = [])
   \<and> (fileObject s = None
         \<longrightarrow> openFileWithIntent env s =
               (Fulfilled, s, [AlertAlert ''No File'' ''Please load the file first'']))
   \<and> (\<forall>f. fileObject s = Some f \<and> Platform_OS env \<noteq> ''android''
         \<longrightarrow> openFileWithIntent env s =
               (Fulfilled,
                s\<lparr>errorText := ''IntentLauncher is only available on Android''\<rparr>,
                [SetErrorText ''IntentLauncher is only available on Android'',
                 AlertAlert ''Android Only'' ''IntentLauncher is only available on Android'']))
   \<and> (\<forall>f. fileObject s = Some f \<and> Platform_OS env = ''android'' \<and> \<not> truthy (contentUri f)
         \<longrightarrow> openFileWithIntent env s =
               (Fulfilled,
                s\<lparr>errorText := contentUri_missing\<rparr>,
                [SetErrorText [],
                 ConsoleLog [Str (emoji_rocket @ '' Attempting to open file with IntentLauncher...'')],
                 SetErrorText contentUri_missing,
                 AlertAlert ''ContentURI Missing'' contentUri_missing,
                 ConsoleError [Str emoji_cross, Str contentUri_missing]]))
   \<and> (intent_calls (log_of (openFileWithIntent env s)) = []
         \<longrightarrow> catch_entries (log_of (openFileWithIntent env s)) = [])"
proof -
  have reset:
    "isLoading (state_after (loadFileFromAsset env s)) = False"
    by (rule load_resets_isLoading)
  have enabled:
    "\<not> load_disabled (state_after (loadFileFromAsset env s))"
    by (simp add: load_disabled_def load_resets_isLoading)
  have fulfilled:
    "((\<forall>e \<in> set (catch_entries (log_of (loadFileFromAsset env s))). showable e)
           \<longrightarrow> fst (loadFileFromAsset env s) = Fulfilled)"
    using load_fulfilled [of env s] by blast
  have shown:
    "(\<forall>e \<in> set (catch_entries (log_of (loadFileFromAsset env s))).
           showable e \<longrightarrow> load_failure_shown env e (loadFileFromAsset env s))"
    using load_caught_shown [of _ env s] by blast
  have open_shown:
    "(\<forall>e \<in> set (catch_entries (log_of (openFileWithIntent env s))).
           open_failure_shown env e (openFileWithIntent env s))"
    using open_caught_shown [of _ env s] by blast
  have module:
    "(\<forall>e. Asset_fromModule env = Inl e
           \<longrightarrow> catch_entries (log_of (loadFileFromAsset env s)) = [e])"
    using load_fromModule_throws(5) [of env _ s] by blast
  have download:
    "(\<forall>a e. Asset_fromModule env = Inr a \<and> downloadAsync env a = Inl e
           \<longrightarrow> catch_entries (log_of (loadFileFromAsset env s)) = [e])"
    using load_download_rejects(5) [of env _ _ s] by blast
  have constructor:
    "(\<forall>a a' e. Asset_fromModule env = Inr a \<and> downloadAsync env a = Inr a'
             \<and> fileUri_of a' \<noteq> [] \<and> File_new env (fileUri_of a') = Inl e
           \<longrightarrow> catch_entries (log_of (loadFileFromAsset env s)) = [e])"
    using load_constructor_throws(5) [of env _ _ _ s] by blast
  have no_source:
    "(\<forall>a a'. Asset_fromModule env = Inr a \<and> downloadAsync env a = Inr a'
             \<and> fileUri_of a' = []
           \<longrightarrow> catch_entries (log_of (loadFileFromAsset env s)) =
                 [Error ''No valid URI from asset'' []])"
    using load_no_uri(5) [of env _ _ s] by blast
  have not_existing:
    "(\<forall>a a' f. Asset_fromModule env = Inr a \<and> downloadAsync env a = Inr a'
             \<and> fileUri_of a' \<noteq> [] \<and> File_new env (fileUri_of a') = Inr f \<and> \<not> exists f
           \<longrightarrow> catch_entries (log_of (loadFileFromAsset env s)) =
                 [Error ''File does not exist'' []])"
    using load_not_existing(5) [of env _ _ _ s] by blast
  have rejected:
    "(\<forall>f e. fileObject s = Some f \<and> Platform_OS env = ''android'' \<and> truthy (contentUri f)
             \<and> startActivityAsync env ''android.intent.action.VIEW''
                  \<lparr>data = string_of (contentUri f), flags = 1, type = ''application/pdf''\<rparr> = Inl e
             \<and> showable e
           \<longrightarrow> open_failure_shown env e (openFileWithIntent env s))"
    using open_rejected [of s _ env] by blast
  have resolved:
    "(\<forall>f. fileObject s = Some f \<and> Platform_OS env = ''android'' \<and> truthy (contentUri f)
             \<and> startActivityAsync env ''android.intent.action.VIEW''
                  \<lparr>data = string_of (contentUri f), flags = 1, type = ''application/pdf''\<rparr> = Inr ()
           \<longrightarrow> fst (openFileWithIntent env s) = Fulfilled
               \<and> catch_entries (log_of (openFileWithIntent env s)) = [])"
    using open_resolved(1,2) [of s _ env] by blast
  have no_handle:
    "(fileObject s = None
           \<longrightarrow> openFileWithIntent env s =
                 (Fulfilled, s, [AlertAlert ''No File'' ''Please load the file first'']))"
    using open_without_handle [of s env] by blast
  have off_android:
    "(\<forall>f. fileObject s = Some f \<and> Platform_OS env \<noteq> ''android''
           \<longrightarrow> openFileWithIntent env s =
                 (Fulfilled,
                  s\<lparr>errorText := ''IntentLauncher is only available on Android''\<rparr>,
                  [SetErrorText ''IntentLauncher is only available on Android'',
                   AlertAlert ''Android Only'' ''IntentLauncher is only available on Android'']))"
    using open_off_android [of s _ env] by blast
  have missing:
    "(\<forall>f. fileObject s = Some f \<and> Platform_OS env = ''android'' \<and> \<not> truthy (contentUri f)
           \<longrightarrow> openFileWithIntent env s =
                 (Fulfilled,
                  s\<lparr>errorText := contentUri_missing\<rparr>,
                  [SetErrorText [],
                   ConsoleLog [Str (emoji_rocket @ '' Attempting to open file with IntentLauncher...'')],
                   SetErrorText contentUri_missing,
                   AlertAlert ''ContentURI Missing'' contentUri_missing,
                   ConsoleError [Str emoji_cross, Str contentUri_missing]]))"
    using open_missing [of s _ env] by blast
  have no_call:
    "(intent_calls (log_of (openFileWithIntent env s)) = []
           \<longrightarrow> catch_entries (log_of (openFileWithIntent env s)) = [])"
    using open_catch_needs_call [of env s] by blast
  show ?thesis
    by (intro conjI)
       (rule reset,
        rule enabled,
        rule fulfilled,
        rule shown,
        rule open_shown,
        rule module,
        rule download,
        rule constructor,
        rule no_source,
        rule not_existing,
        rule rejected,
        rule resolved,
        rule no_handle,
        rule off_android,
        rule missing,
        rule no_call)
qed

theorem thrown_failures_caught_and_shown_witness:
  "load_failure_shown no_module (Error ''Module not found'' [])
     (loadFileFromAsset no_module initial_state)
   \<and> load_failure_shown offline (Error ''Network request failed'' [])
     (loadFileFromAsset offline initial_state)
   \<and> load_failure_shown bad_constructor (Error ''Invalid URI'' [])
     (loadFileFromAsset bad_constructor initial_state)
   \<and> fst (loadFileFromAsset offline initial_state) = Fulfilled
   \<and> catch_entries (log_of (loadFileFromAsset no_source initial_state)) =
       [Error ''No valid URI from asset'' []]
   \<and> catch_entries (log_of (loadFileFromAsset vanished initial_state)) =
       [Error ''File does not exist'' []]
   \<and> isLoading (state_after (loadFileFromAsset cyclic_download initial_state)) = False
   \<and> catch_entries (log_of (loadFileFromAsset cyclic_download initial_state)) =
       [Cyclic ''Request failed'']
   \<and> open_failure_shown viewerless no_viewer
        (openFileWithIntent viewerless (loaded_state expected_file))
   \<and> errorText (state_after (openFileWithIntent viewerless (loaded_state expected_file))) =
       ''Error opening file: No Activity found to handle Intent'' @ nl @ nl
       @ ''{'' @ nl @ ''  '' @ dq @ ''code'' @ dq @ '': '' @ dq @ ''ERR_INTENT'' @ dq @ nl @ ''}''
   \<and> fst (openFileWithIntent (device ''android'' expected_file) (loaded_state expected_file)) =
       Fulfilled
   \<and> openFileWithIntent (device ''android'' actual_file) initial_state =
       (Fulfilled, initial_state, [AlertAlert ''No File'' ''Please load the file first''])
   \<and> errorText (state_after (openFileWithIntent (device ''ios'' expected_file)
        (loaded_state expected_file))) = ''IntentLauncher is only available on Android''
   \<and> errorText (state_after (openFileWithIntent (device ''android'' actual_file)
        (loaded_state actual_file))) = contentUri_missing
   \<and> catch_entries (log_of (openFileWithIntent (device ''android'' actual_file)
        (loaded_state actual_file))) = []"
proof -
  let ?local = "bundled_asset\<lparr>localUri := Some ''file:///data/user/0/com.test.app/files/sample.pdf''\<rparr>"
  let ?none = "bundled_asset\<lparr>Asset.uri := []\<rparr>"
  let ?gone = "actual_file\<lparr>exists := False,
                 File.uri := ''file:///data/user/0/com.test.app/files/sample.pdf''\<rparr>"
  let ?params = "\<lparr>data = string_of (contentUri expected_file), flags = 1,
                 type = ''application/pdf''\<rparr>"
  have dumpable: "showable (Error m ps)" for m ps
    by (simp add: showable_def)
  have h1: "Asset_fromModule no_module = Inl (Error ''Module not found'' [])"
    by (simp add: no_module_def)
  have h2: "Asset_fromModule offline = Inr bundled_asset
            \<and> downloadAsync offline bundled_asset = Inl (Error ''Network request failed'' [])"
    by (simp add: offline_def device_def)
  have h3: "Asset_fromModule bad_constructor = Inr bundled_asset
            \<and> downloadAsync bad_constructor bundled_asset = Inr ?local
            \<and> fileUri_of ?local \<noteq> []
            \<and> File_new bad_constructor (fileUri_of ?local) = Inl (Error ''Invalid URI'' [])"
    by (simp add: bad_constructor_def device_def fileUri_of_def truthy_def string_of_def)
  have h4: "Asset_fromModule cyclic_download = Inr bundled_asset
            \<and> downloadAsync cyclic_download bundled_asset = Inl (Cyclic ''Request failed'')"
    by (simp add: cyclic_download_def device_def)
  have h5: "fileObject (loaded_state expected_file) = Some expected_file
            \<and> Platform_OS viewerless = ''android'' \<and> truthy (contentUri expected_file)
            \<and> startActivityAsync viewerless ''android.intent.action.VIEW'' ?params = Inl no_viewer
            \<and> showable no_viewer"
    by (simp add: sample_defs truthy_def showable_def)
  have h6: "fileObject (loaded_state expected_file) = Some expected_file
            \<and> Platform_OS (device ''android'' expected_file) = ''android''
            \<and> truthy (contentUri expected_file)
            \<and> startActivityAsync (device ''android'' expected_file)
                 ''android.intent.action.VIEW'' ?params = Inr ()"
    by (simp add: sample_defs truthy_def)
  have h7: "fileObject initial_state = None"
    by (simp add: initial_state_def)
  have h8: "fileObject (loaded_state expected_file) = Some expected_file
            \<and> Platform_OS (device ''ios'' expected_file) \<noteq> ''android''"
    by (simp add: sample_defs)
  have h9: "fileObject (loaded_state actual_file) = Some actual_file
            \<and> Platform_OS (device ''android'' actual_file) = ''android''
            \<and> \<not> truthy (contentUri actual_file)"
    by (simp add: sample_defs truthy_def)
  have h10: "Asset_fromModule no_source = Inr ?none \<and> downloadAsync no_source ?none = Inr ?none
            \<and> fileUri_of ?none = []"
    by (simp add: no_source_def remote_only_def device_def fileUri_of_def truthy_def
        bundled_asset_def)
  have h11: "Asset_fromModule vanished = Inr bundled_asset
            \<and> downloadAsync vanished bundled_asset = Inr ?local
            \<and> fileUri_of ?local \<noteq> [] \<and> File_new vanished (fileUri_of ?local) = Inr ?gone
            \<and> \<not> exists ?gone"
    by (simp add: vanished_def device_def fileUri_of_def truthy_def string_of_def)
  have e1: "catch_entries (log_of (loadFileFromAsset no_module initial_state)) =
              [Error ''Module not found'' []]"
    using h1 thrown_failures_caught_and_shown
        [of no_module initial_state, THEN conjunct2, THEN conjunct2, THEN conjunct2, THEN conjunct2, THEN conjunct2, THEN conjunct1]
    by blast
  have c1: "load_failure_shown no_module (Error ''Module not found'' [])
     (loadFileFromAsset no_module initial_state)"
    using e1 dumpable thrown_failures_caught_and_shown
        [of no_module initial_state, THEN conjunct2, THEN conjunct2, THEN conjunct2, THEN conjunct1]
    by simp
  have e2: "catch_entries (log_of (loadFileFromAsset offline initial_state)) =
              [Error ''Network request failed'' []]"
    using h2 thrown_failures_caught_and_shown
        [of offline initial_state, THEN conjunct2, THEN conjunct2, THEN conjunct2, THEN conjunct2, THEN conjunct2, THEN conjunct2, THEN conjunct1]
    by blast
  have c2: "load_failure_shown offline (Error ''Network request failed'' [])
     (loadFileFromAsset offline initial_state)"
    using e2 dumpable thrown_failures_caught_and_shown
        [of offline initial_state, THEN conjunct2, THEN conjunct2, THEN conjunct2, THEN conjunct1]
    by simp
  have f2: "fst (loadFileFromAsset offline initial_state) = Fulfilled"
    using e2 dumpable thrown_failures_caught_and_shown
        [of offline initial_state, THEN conjunct2, THEN conjunct2, THEN conjunct1]
    by simp
  have e3: "catch_entries (log_of (loadFileFromAsset bad_constructor initial_state)) =
              [Error ''Invalid URI'' []]"
    using h3 thrown_failures_caught_and_shown
        [of bad_constructor initial_state, THEN conjunct2, THEN conjunct2, THEN conjunct2, THEN conjunct2, THEN conjunct2, THEN conjunct2, THEN conjunct2, THEN conjunct1]
    by blast
  have c3: "load_failure_shown bad_constructor (Error ''Invalid URI'' [])
     (loadFileFromAsset bad_constructor initial_state)"
    using e3 dumpable thrown_failures_caught_and_shown
        [of bad_constructor initial_state, THEN conjunct2, THEN conjunct2, THEN conjunct2, THEN conjunct1]
    by simp
  have g1: "catch_entries (log_of (loadFileFromAsset no_source initial_state)) =
       [Error ''No valid URI from asset'' []]"
    using h10 thrown_failures_caught_and_shown
        [of no_source initial_state, THEN conjunct2, THEN conjunct2, THEN conjunct2, THEN conjunct2, THEN conjunct2, THEN conjunct2, THEN conjunct2, THEN conjunct2, THEN conjunct1]
    by blast
  have g2: "catch_entries (log_of (loadFileFromAsset vanished initial_state)) =
       [Error ''File does not exist'' []]"
    using h11 thrown_failures_caught_and_shown
        [of vanished initial_state, THEN conjunct2, THEN conjunct2, THEN conjunct2, THEN conjunct2, THEN conjunct2, THEN conjunct2, THEN conjunct2, THEN conjunct2, THEN conjunct2, THEN conjunct1]
    by blast
  have c4a: "isLoading (state_after (loadFileFromAsset cyclic_download initial_state)) = False"
    by (rule thrown_failures_caught_and_shown
        [of cyclic_download initial_state, THEN conjunct1])
  have c4b: "catch_entries (log_of (loadFileFromAsset cyclic_download initial_state)) =
       [Cyclic ''Request failed'']"
    using h4 thrown_failures_caught_and_shown
        [of cyclic_download initial_state, THEN conjunct2, THEN conjunct2, THEN conjunct2, THEN conjunct2, THEN conjunct2, THEN conjunct2, THEN conjunct1]
    by blast
  have c5: "open_failure_shown viewerless no_viewer
        (openFileWithIntent viewerless (loaded_state expected_file))"
    using h5 thrown_failures_caught_and_shown
        [of viewerless "loaded_state expected_file", THEN conjunct2, THEN conjunct2, THEN conjunct2, THEN conjunct2, THEN conjunct2, THEN conjunct2, THEN conjunct2, THEN conjunct2, THEN conjunct2, THEN conjunct2, THEN conjunct1]
    by blast
  have dump: "JSON_stringify viewerless no_viewer =
       ''{'' @ nl @ ''  '' @ dq @ ''code'' @ dq @ '': '' @ dq @ ''ERR_INTENT'' @ dq @ nl @ ''}''"
    by (simp add: viewerless_def device_def sample_stringify_def no_viewer_def)
  have d5: "errorText (state_after (openFileWithIntent viewerless (loaded_state expected_file))) =
       ''Error opening file: No Activity found to handle Intent'' @ nl @ nl
       @ ''{'' @ nl @ ''  '' @ dq @ ''code'' @ dq @ '': '' @ dq @ ''ERR_INTENT'' @ dq @ nl @ ''}''"
    using c5 dump by (simp add: open_failure_shown_def no_viewer_def)
  have c6: "fst (openFileWithIntent (device ''android'' expected_file)
              (loaded_state expected_file)) = Fulfilled"
    using h6 thrown_failures_caught_and_shown
        [of "device ''android'' expected_file" "loaded_state expected_file", THEN conjunct2, THEN conjunct2, THEN conjunct2, THEN conjunct2, THEN conjunct2, THEN conjunct2, THEN conjunct2, THEN conjunct2, THEN conjunct2, THEN conjunct2, THEN conjunct2, THEN conjunct1]
    by blast
  have c7: "openFileWithIntent (device ''android'' actual_file) initial_state =
       (Fulfilled, initial_state, [AlertAlert ''No File'' ''Please load the file first''])"
    using h7 thrown_failures_caught_and_shown
        [of "device ''android'' actual_file" initial_state, THEN conjunct2, THEN conjunct2, THEN conjunct2, THEN conjunct2, THEN conjunct2, THEN conjunct2, THEN conjunct2, THEN conjunct2, THEN conjunct2, THEN conjunct2, THEN conjunct2, THEN conjunct2, THEN conjunct1]
    by blast
  have r8: "openFileWithIntent (device ''ios'' expected_file) (loaded_state expected_file) =
               (Fulfilled,
                (loaded_state expected_file)
                  \<lparr>errorText := ''IntentLauncher is only available on Android''\<rparr>,
                [SetErrorText ''IntentLauncher is only available on Android'',
                 AlertAlert ''Android Only'' ''IntentLauncher is only available on Android''])"
    using h8 thrown_failures_caught_and_shown
        [of "device ''ios'' expected_file" "loaded_state expected_file", THEN conjunct2, THEN conjunct2, THEN conjunct2, THEN conjunct2, THEN conjunct2, THEN conjunct2, THEN conjunct2, THEN conjunct2, THEN conjunct2, THEN conjunct2, THEN conjunct2, THEN conjunct2, THEN conjunct2, THEN conjunct1]
    by blast
  have c8: "errorText (state_after (openFileWithIntent (device ''ios'' expected_file)
        (loaded_state expected_file))) = ''IntentLauncher is only available on Android''"
    unfolding r8 by (simp add: state_after_def)
  have r9: "openFileWithIntent (device ''android'' actual_file) (loaded_state actual_file) =
               (Fulfilled,
                (loaded_state actual_file)\<lparr>errorText := contentUri_missing\<rparr>,
                [SetErrorText [],
                 ConsoleLog [Str (emoji_rocket @ '' Attempting to open file with IntentLauncher...'')],
                 SetErrorText contentUri_missing,
                 AlertAlert ''ContentURI Missing'' contentUri_missing,
                 ConsoleError [Str emoji_cross, Str contentUri_missing]])"
    using h9 thrown_failures_caught_and_shown
        [of "device ''android'' actual_file" "loaded_state actual_file", THEN conjunct2, THEN conjunct2, THEN conjunct2, THEN conjunct2, THEN conjunct2, THEN conjunct2, THEN conjunct2, THEN conjunct2, THEN conjunct2, THEN conjunct2, THEN conjunct2, THEN conjunct2, THEN conjunct2, THEN conjunct2, THEN conjunct1]
    by blast
  have c9a: "errorText (state_after (openFileWithIntent (device ''android'' actual_file)
        (loaded_state actual_file))) = contentUri_missing"
    unfolding r9 by (simp add: read_defs)
  have c9b: "catch_entries (log_of (openFileWithIntent (device ''android'' actual_file)
        (loaded_state actual_file))) = []"
    unfolding r9 by (simp add: read_defs)
  show ?thesis
    by (intro conjI)
       (rule c1, rule c2, rule c3, rule f2, rule g1, rule g2, rule c4a, rule c4b, rule c5,
        rule d5, rule c6, rule c7, rule c8, rule c9a, rule c9b)
qed

end
